theory Spec2Isabelle
  imports Main "HOL-Library.Word" "HOL-Library.Sublist"
begin

section \<open>Values, errors and the codec\<close>

text \<open>
  The core (\<^verbatim>\<open>asgi_rabbitmq/core.py\<close>) moves Python values between caller threads and
  an AMQP broker. Bytes are 8-bit words; a Python text string is the list of its Unicode
  code points; channel, group, queue and exchange names are text.
\<close>

type_synonym byte = "8 word"
type_synonym pystr = "nat list"
type_synonym name = pystr

definition text_of :: "string \<Rightarrow> pystr" where
  "text_of s = map of_char s"

text \<open>
  The exceptions the model distinguishes. \<open>ChannelFull\<close> is
  \<^verbatim>\<open>RabbitmqChannelLayer.ChannelFull\<close>; the others are the Python built-ins raised by
  \<^verbatim>\<open>assert\<close>, by indexing and by the msgpack codec, and the client library's
  \<open>ChannelClosed\<close>. All of them are subclasses of \<^verbatim>\<open>Exception\<close>.
\<close>

datatype error =
    ChannelFull
  | AssertionError
  | KeyError
  | IndexError
  | TypeError
  | AttributeError
  | PackError
  | UnpackError
  | UnicodeError
  | ChannelClosed

text \<open>
  The values a message is built from: \<^verbatim>\<open>None\<close>, booleans, integers, floats (as the 64
  bits of their IEEE double), text, bytes, lists, and dictionaries with text keys in
  insertion order.
\<close>

datatype pyval =
    PNone
  | PBool bool
  | PInt int
  | PFloat "64 word"
  | PStr pystr
  | PBytes "byte list"
  | PList "pyval list"
  | PDict "(pystr \<times> pyval) list"

subsection \<open>UTF-8\<close>

definition byte :: "nat \<Rightarrow> byte" where
  "byte n = of_nat n"

text \<open>\<^verbatim>\<open>str.encode('utf-8')\<close>, strict: a surrogate code point cannot be encoded.\<close>

definition utf8_char :: "nat \<Rightarrow> error + byte list" where
  "utf8_char c =
     (if c < 0x80 then Inr [byte c]
      else if c < 0x800 then Inr [byte (0xC0 + c div 64), byte (0x80 + c mod 64)]
      else if 0xD800 \<le> c \<and> c < 0xE000 then Inl UnicodeError
      else if c < 0x10000 then
        Inr [byte (0xE0 + c div 4096), byte (0x80 + c div 64 mod 64), byte (0x80 + c mod 64)]
      else if c < 0x110000 then
        Inr [byte (0xF0 + c div 262144), byte (0x80 + c div 4096 mod 64),
             byte (0x80 + c div 64 mod 64), byte (0x80 + c mod 64)]
      else Inl UnicodeError)"

fun utf8_encode :: "pystr \<Rightarrow> error + byte list" where
  "utf8_encode [] = Inr []"
| "utf8_encode (c # cs) =
     (case utf8_char c of
        Inl e \<Rightarrow> Inl e
      | Inr bs \<Rightarrow> (case utf8_encode cs of Inl e \<Rightarrow> Inl e | Inr r \<Rightarrow> Inr (bs @ r)))"

definition is_cont :: "byte \<Rightarrow> bool" where
  "is_cont b = (0x80 \<le> unat b \<and> unat b < 0xC0)"

definition cons_ok :: "'a \<Rightarrow> error + 'a list \<Rightarrow> error + 'a list" where
  "cons_ok x r = (case r of Inl e \<Rightarrow> Inl e | Inr xs \<Rightarrow> Inr (x # xs))"

text \<open>
  \<^verbatim>\<open>bytes.decode('utf8')\<close>, strict: truncated sequences, stray continuation bytes,
  overlong forms, surrogates and code points above U+10FFFF are errors.
\<close>

fun utf8_decode :: "byte list \<Rightarrow> error + pystr" where
  "utf8_decode [] = Inr []"
| "utf8_decode (b # bs) =
     (if unat b < 0x80 then cons_ok (unat b) (utf8_decode bs)
      else if 0xC2 \<le> unat b \<and> unat b < 0xE0 then
        (case bs of
           b1 # r \<Rightarrow>
             if is_cont b1
             then cons_ok ((unat b - 0xC0) * 64 + (unat b1 - 0x80)) (utf8_decode r)
             else Inl UnicodeError
         | _ \<Rightarrow> Inl UnicodeError)
      else if 0xE0 \<le> unat b \<and> unat b < 0xF0 then
        (case bs of
           b1 # b2 # r \<Rightarrow>
             (let c = (unat b - 0xE0) * 4096 + (unat b1 - 0x80) * 64 + (unat b2 - 0x80)
              in if is_cont b1 \<and> is_cont b2 \<and> 0x800 \<le> c \<and> \<not> (0xD800 \<le> c \<and> c < 0xE000)
                 then cons_ok c (utf8_decode r)
                 else Inl UnicodeError)
         | _ \<Rightarrow> Inl UnicodeError)
      else if 0xF0 \<le> unat b \<and> unat b < 0xF5 then
        (case bs of
           b1 # b2 # b3 # r \<Rightarrow>
             (let c = (unat b - 0xF0) * 262144 + (unat b1 - 0x80) * 4096
                      + (unat b2 - 0x80) * 64 + (unat b3 - 0x80)
              in if is_cont b1 \<and> is_cont b2 \<and> is_cont b3 \<and> 0x10000 \<le> c \<and> c < 0x110000
                 then cons_ok c (utf8_decode r)
                 else Inl UnicodeError)
         | _ \<Rightarrow> Inl UnicodeError)
      else Inl UnicodeError)"

subsection \<open>The msgpack wire format\<close>

text \<open>
  \<^verbatim>\<open>serialize\<close> and \<^verbatim>\<open>deserialize\<close> call the msgpack library, which is not part of the
  repository. The functions below follow the msgpack format as the library's packer and
  unpacker write and read it for the values of \<^typ>\<open>pyval\<close>: the shortest header for
  each integer, length or count, big-endian multi-byte fields, the \<^verbatim>\<open>bin\<close> family for
  bytes when \<^verbatim>\<open>use_bin_type\<close> is set, and the packer's nesting limit of 511.
\<close>

fun be_bytes :: "nat \<Rightarrow> nat \<Rightarrow> byte list" where
  "be_bytes 0 n = []"
| "be_bytes (Suc k) n = be_bytes k (n div 256) @ [byte (n mod 256)]"

definition be_nat :: "byte list \<Rightarrow> nat" where
  "be_nat bs = foldl (\<lambda>a b. a * 256 + unat b) 0 bs"

definition pack_int :: "int \<Rightarrow> error + byte list" where
  "pack_int i =
     (if 0 \<le> i \<and> i < 0x80 then Inr [byte (nat i)]
      else if - 0x20 \<le> i \<and> i < 0 then Inr [byte (nat (i + 0x100))]
      else if 0x80 \<le> i \<and> i \<le> 0xff then Inr (0xcc # be_bytes 1 (nat i))
      else if - 0x80 \<le> i \<and> i < 0 then Inr (0xd0 # be_bytes 1 (nat (i + 0x100)))
      else if 0xff < i \<and> i \<le> 0xffff then Inr (0xcd # be_bytes 2 (nat i))
      else if - 0x8000 \<le> i \<and> i < - 0x80 then Inr (0xd1 # be_bytes 2 (nat (i + 0x10000)))
      else if 0xffff < i \<and> i \<le> 0xffffffff then Inr (0xce # be_bytes 4 (nat i))
      else if - 0x80000000 \<le> i \<and> i < - 0x8000
        then Inr (0xd2 # be_bytes 4 (nat (i + 0x100000000)))
      else if 0xffffffff < i \<and> i \<le> 0xffffffffffffffff then Inr (0xcf # be_bytes 8 (nat i))
      else if - 0x8000000000000000 \<le> i \<and> i < - 0x80000000
        then Inr (0xd3 # be_bytes 8 (nat (i + 0x10000000000000000)))
      else Inl PackError)"

definition pack_raw_header :: "bool \<Rightarrow> nat \<Rightarrow> error + byte list" where
  "pack_raw_header use_bin_type n =
     (if n \<le> 0x1f then Inr [byte (0xa0 + n)]
      else if use_bin_type \<and> n \<le> 0xff then Inr (0xd9 # be_bytes 1 n)
      else if n \<le> 0xffff then Inr (0xda # be_bytes 2 n)
      else if n \<le> 0xffffffff then Inr (0xdb # be_bytes 4 n)
      else Inl PackError)"

definition pack_bin_header :: "nat \<Rightarrow> error + byte list" where
  "pack_bin_header n =
     (if n \<le> 0xff then Inr (0xc4 # be_bytes 1 n)
      else if n \<le> 0xffff then Inr (0xc5 # be_bytes 2 n)
      else if n \<le> 0xffffffff then Inr (0xc6 # be_bytes 4 n)
      else Inl PackError)"

definition pack_array_header :: "nat \<Rightarrow> error + byte list" where
  "pack_array_header n =
     (if n \<le> 0x0f then Inr [byte (0x90 + n)]
      else if n \<le> 0xffff then Inr (0xdc # be_bytes 2 n)
      else if n \<le> 0xffffffff then Inr (0xdd # be_bytes 4 n)
      else Inl PackError)"

definition pack_map_header :: "nat \<Rightarrow> error + byte list" where
  "pack_map_header n =
     (if n \<le> 0x0f then Inr [byte (0x80 + n)]
      else if n \<le> 0xffff then Inr (0xde # be_bytes 2 n)
      else if n \<le> 0xffffffff then Inr (0xdf # be_bytes 4 n)
      else Inl PackError)"

definition pack_str :: "bool \<Rightarrow> pystr \<Rightarrow> error + byte list" where
  "pack_str use_bin_type t =
     (case utf8_encode t of
        Inl e \<Rightarrow> Inl e
      | Inr bs \<Rightarrow>
          (case pack_raw_header use_bin_type (length bs) of
             Inl e \<Rightarrow> Inl e
           | Inr h \<Rightarrow> Inr (h @ bs)))"

definition pack_bytes :: "bool \<Rightarrow> byte list \<Rightarrow> error + byte list" where
  "pack_bytes use_bin_type bs =
     (case (if use_bin_type then pack_bin_header (length bs)
            else pack_raw_header False (length bs)) of
        Inl e \<Rightarrow> Inl e
      | Inr h \<Rightarrow> Inr (h @ bs))"

text \<open>
  The packer. \<open>nl\<close> is its \<^verbatim>\<open>nest_limit\<close>: every call checks it first and hands
  \<open>nl - 1\<close> to the items of a container.
\<close>

fun pack :: "bool \<Rightarrow> int \<Rightarrow> pyval \<Rightarrow> error + byte list"
  and pack_items :: "bool \<Rightarrow> int \<Rightarrow> pyval list \<Rightarrow> error + byte list"
  and pack_pairs :: "bool \<Rightarrow> int \<Rightarrow> (pystr \<times> pyval) list \<Rightarrow> error + byte list"
where
  "pack ubt nl PNone = (if nl < 0 then Inl PackError else Inr [0xc0])"
| "pack ubt nl (PBool b) = (if nl < 0 then Inl PackError else Inr [if b then 0xc3 else 0xc2])"
| "pack ubt nl (PInt i) = (if nl < 0 then Inl PackError else pack_int i)"
| "pack ubt nl (PFloat w) =
     (if nl < 0 then Inl PackError else Inr (0xcb # be_bytes 8 (unat w)))"
| "pack ubt nl (PStr t) = (if nl < 0 then Inl PackError else pack_str ubt t)"
| "pack ubt nl (PBytes bs) = (if nl < 0 then Inl PackError else pack_bytes ubt bs)"
| "pack ubt nl (PList xs) =
     (if nl < 0 then Inl PackError
      else case pack_array_header (length xs) of
             Inl e \<Rightarrow> Inl e
           | Inr h \<Rightarrow>
               (case pack_items ubt (nl - 1) xs of Inl e \<Rightarrow> Inl e | Inr r \<Rightarrow> Inr (h @ r)))"
| "pack ubt nl (PDict kvs) =
     (if nl < 0 then Inl PackError
      else case pack_map_header (length kvs) of
             Inl e \<Rightarrow> Inl e
           | Inr h \<Rightarrow>
               (case pack_pairs ubt (nl - 1) kvs of Inl e \<Rightarrow> Inl e | Inr r \<Rightarrow> Inr (h @ r)))"
| "pack_items ubt nl [] = Inr []"
| "pack_items ubt nl (x # xs) =
     (case pack ubt nl x of
        Inl e \<Rightarrow> Inl e
      | Inr b \<Rightarrow> (case pack_items ubt nl xs of Inl e \<Rightarrow> Inl e | Inr r \<Rightarrow> Inr (b @ r)))"
| "pack_pairs ubt nl [] = Inr []"
| "pack_pairs ubt nl ((k, v) # kvs) =
     (case (if nl < 0 then Inl PackError else pack_str ubt k) of
        Inl e \<Rightarrow> Inl e
      | Inr kb \<Rightarrow>
          (case pack ubt nl v of
             Inl e \<Rightarrow> Inl e
           | Inr vb \<Rightarrow>
               (case pack_pairs ubt nl kvs of Inl e \<Rightarrow> Inl e | Inr r \<Rightarrow> Inr (kb @ vb @ r))))"

definition packb :: "bool \<Rightarrow> pyval \<Rightarrow> error + byte list" where
  "packb use_bin_type v = pack use_bin_type 511 v"

text \<open>
  The unpacker reads one object from the front of the input and returns it with the
  unread rest. \<open>take_n k bs\<close> is the next \<open>k\<close> bytes, an error if fewer are left.
\<close>

definition take_n :: "nat \<Rightarrow> byte list \<Rightarrow> error + (byte list \<times> byte list)" where
  "take_n k bs = (if length bs < k then Inl UnpackError else Inr (take k bs, drop k bs))"

text \<open>A field of \<open>k\<close> big-endian bytes, as an unsigned number.\<close>

definition take_be :: "nat \<Rightarrow> byte list \<Rightarrow> error + (nat \<times> byte list)" where
  "take_be k bs = (case take_n k bs of Inl e \<Rightarrow> Inl e | Inr (f, r) \<Rightarrow> Inr (be_nat f, r))"

text \<open>
  A raw (\<^verbatim>\<open>str\<close> family) payload: text when the unpacker was given
  \<^verbatim>\<open>encoding='utf8'\<close>, bytes when it was given no encoding.
\<close>

definition unpack_raw :: "bool \<Rightarrow> nat \<Rightarrow> byte list \<Rightarrow> error + (pyval \<times> byte list)" where
  "unpack_raw utf8 n bs =
     (case take_n n bs of
        Inl e \<Rightarrow> Inl e
      | Inr (f, r) \<Rightarrow>
          if utf8 then (case utf8_decode f of Inl e \<Rightarrow> Inl e | Inr t \<Rightarrow> Inr (PStr t, r))
          else Inr (PBytes f, r))"

definition unpack_bin :: "nat \<Rightarrow> byte list \<Rightarrow> error + (pyval \<times> byte list)" where
  "unpack_bin n bs = (case take_n n bs of Inl e \<Rightarrow> Inl e | Inr (f, r) \<Rightarrow> Inr (PBytes f, r))"

text \<open>Python's \<^verbatim>\<open>d[k] = v\<close> on an insertion-ordered dictionary.\<close>

fun dict_set :: "('k \<times> 'v) list \<Rightarrow> 'k \<Rightarrow> 'v \<Rightarrow> ('k \<times> 'v) list" where
  "dict_set [] k v = [(k, v)]"
| "dict_set ((k', v') # d) k v = (if k' = k then (k, v) # d else (k', v') # dict_set d k v)"

text \<open>
  The scalar and length-prefixed forms, by leading byte \<open>t\<close>; containers are read by
  \<open>unpack\<close> below. The forms no value of \<^typ>\<open>pyval\<close> is packed to (32-bit floats,
  extension types, the unused byte \<^verbatim>\<open>0xc1\<close>) are reported as \<open>UnpackError\<close>.
\<close>

definition unpack_scalar :: "bool \<Rightarrow> nat \<Rightarrow> byte list \<Rightarrow> error + (pyval \<times> byte list)" where
  "unpack_scalar utf8 t bs =
     (if t < 0x80 then Inr (PInt (int t), bs)
      else if 0xe0 \<le> t then Inr (PInt (int t - 0x100), bs)
      else if 0xa0 \<le> t \<and> t < 0xc0 then unpack_raw utf8 (t - 0xa0) bs
      else if t = 0xc0 then Inr (PNone, bs)
      else if t = 0xc2 then Inr (PBool False, bs)
      else if t = 0xc3 then Inr (PBool True, bs)
      else if t = 0xc4 then
        (case take_be 1 bs of Inl e \<Rightarrow> Inl e | Inr (n, r) \<Rightarrow> unpack_bin n r)
      else if t = 0xc5 then
        (case take_be 2 bs of Inl e \<Rightarrow> Inl e | Inr (n, r) \<Rightarrow> unpack_bin n r)
      else if t = 0xc6 then
        (case take_be 4 bs of Inl e \<Rightarrow> Inl e | Inr (n, r) \<Rightarrow> unpack_bin n r)
      else if t = 0xcb then
        (case take_be 8 bs of Inl e \<Rightarrow> Inl e | Inr (n, r) \<Rightarrow> Inr (PFloat (of_nat n), r))
      else if t = 0xcc then
        (case take_be 1 bs of Inl e \<Rightarrow> Inl e | Inr (n, r) \<Rightarrow> Inr (PInt (int n), r))
      else if t = 0xcd then
        (case take_be 2 bs of Inl e \<Rightarrow> Inl e | Inr (n, r) \<Rightarrow> Inr (PInt (int n), r))
      else if t = 0xce then
        (case take_be 4 bs of Inl e \<Rightarrow> Inl e | Inr (n, r) \<Rightarrow> Inr (PInt (int n), r))
      else if t = 0xcf then
        (case take_be 8 bs of Inl e \<Rightarrow> Inl e | Inr (n, r) \<Rightarrow> Inr (PInt (int n), r))
      else if t = 0xd0 then
        (case take_be 1 bs of
           Inl e \<Rightarrow> Inl e
         | Inr (n, r) \<Rightarrow> Inr (PInt (if n < 0x80 then int n else int n - 0x100), r))
      else if t = 0xd1 then
        (case take_be 2 bs of
           Inl e \<Rightarrow> Inl e
         | Inr (n, r) \<Rightarrow> Inr (PInt (if n < 0x8000 then int n else int n - 0x10000), r))
      else if t = 0xd2 then
        (case take_be 4 bs of
           Inl e \<Rightarrow> Inl e
         | Inr (n, r) \<Rightarrow>
             Inr (PInt (if n < 0x80000000 then int n else int n - 0x100000000), r))
      else if t = 0xd3 then
        (case take_be 8 bs of
           Inl e \<Rightarrow> Inl e
         | Inr (n, r) \<Rightarrow>
             Inr (PInt (if n < 0x8000000000000000 then int n
                        else int n - 0x10000000000000000), r))
      else if t = 0xd9 then
        (case take_be 1 bs of Inl e \<Rightarrow> Inl e | Inr (n, r) \<Rightarrow> unpack_raw utf8 n r)
      else if t = 0xda then
        (case take_be 2 bs of Inl e \<Rightarrow> Inl e | Inr (n, r) \<Rightarrow> unpack_raw utf8 n r)
      else if t = 0xdb then
        (case take_be 4 bs of Inl e \<Rightarrow> Inl e | Inr (n, r) \<Rightarrow> unpack_raw utf8 n r)
      else Inl UnpackError)"

text \<open>
  The count of an array or map header with leading byte \<open>t\<close>: \<open>Inr (True, n, rest)\<close> for
  a map of \<open>n\<close> pairs, \<open>Inr (False, n, rest)\<close> for an array of \<open>n\<close> items, \<open>None\<close> when
  \<open>t\<close> opens no container.
\<close>

definition container_header ::
  "nat \<Rightarrow> byte list \<Rightarrow> (error + (bool \<times> nat \<times> byte list)) option" where
  "container_header t bs =
     (if 0x80 \<le> t \<and> t < 0x90 then Some (Inr (True, t - 0x80, bs))
      else if 0x90 \<le> t \<and> t < 0xa0 then Some (Inr (False, t - 0x90, bs))
      else if t = 0xdc then
        Some (case take_be 2 bs of Inl e \<Rightarrow> Inl e | Inr (n, r) \<Rightarrow> Inr (False, n, r))
      else if t = 0xdd then
        Some (case take_be 4 bs of Inl e \<Rightarrow> Inl e | Inr (n, r) \<Rightarrow> Inr (False, n, r))
      else if t = 0xde then
        Some (case take_be 2 bs of Inl e \<Rightarrow> Inl e | Inr (n, r) \<Rightarrow> Inr (True, n, r))
      else if t = 0xdf then
        Some (case take_be 4 bs of Inl e \<Rightarrow> Inl e | Inr (n, r) \<Rightarrow> Inr (True, n, r))
      else None)"

text \<open>
  The unpacker proper. The first argument bounds the nesting it follows; \<open>unpackb\<close>
  starts it at the length of the input, which no encoded value can exceed. A map is
  built by successive \<^verbatim>\<open>d[k] = v\<close>; keys are text, any other key is outside the values
  modelled here and reported as \<open>TypeError\<close>.
\<close>

fun unpack :: "bool \<Rightarrow> nat \<Rightarrow> byte list \<Rightarrow> error + (pyval \<times> byte list)"
  and unpack_items :: "bool \<Rightarrow> nat \<Rightarrow> nat \<Rightarrow> byte list \<Rightarrow> error + (pyval list \<times> byte list)"
  and unpack_pairs ::
    "bool \<Rightarrow> nat \<Rightarrow> nat \<Rightarrow> (pystr \<times> pyval) list \<Rightarrow> byte list
      \<Rightarrow> error + ((pystr \<times> pyval) list \<times> byte list)"
where
  "unpack utf8 d [] = Inl UnpackError"
| "unpack utf8 0 (b # bs) = Inl UnpackError"
| "unpack utf8 (Suc d) (b # bs) =
     (case container_header (unat b) bs of
        None \<Rightarrow> unpack_scalar utf8 (unat b) bs
      | Some (Inl e) \<Rightarrow> Inl e
      | Some (Inr (is_map, n, r)) \<Rightarrow>
          if is_map then
            (case unpack_pairs utf8 d n [] r of
               Inl e \<Rightarrow> Inl e
             | Inr (kvs, r') \<Rightarrow> Inr (PDict kvs, r'))
          else
            (case unpack_items utf8 d n r of
               Inl e \<Rightarrow> Inl e
             | Inr (xs, r') \<Rightarrow> Inr (PList xs, r')))"
| "unpack_items utf8 d 0 bs = Inr ([], bs)"
| "unpack_items utf8 d (Suc n) bs =
     (case unpack utf8 d bs of
        Inl e \<Rightarrow> Inl e
      | Inr (x, r) \<Rightarrow>
          (case unpack_items utf8 d n r of
             Inl e \<Rightarrow> Inl e
           | Inr (xs, r') \<Rightarrow> Inr (x # xs, r')))"
| "unpack_pairs utf8 d 0 acc bs = Inr (acc, bs)"
| "unpack_pairs utf8 d (Suc n) acc bs =
     (case unpack utf8 d bs of
        Inl e \<Rightarrow> Inl e
      | Inr (k, r) \<Rightarrow>
          (case unpack utf8 d r of
             Inl e \<Rightarrow> Inl e
           | Inr (v, r') \<Rightarrow>
               (case k of
                  PStr t \<Rightarrow> unpack_pairs utf8 d n (dict_set acc t v) r'
                | _ \<Rightarrow> Inl TypeError)))"

definition unpackb :: "bool \<Rightarrow> byte list \<Rightarrow> error + pyval" where
  "unpackb utf8 bs =
     (case unpack utf8 (length bs) bs of
        Inl e \<Rightarrow> Inl e
      | Inr (v, r) \<Rightarrow> if r = [] then Inr v else Inl UnpackError)"

text \<open>
  \<^verbatim>\<open>AMQP.serialize\<close> is \<^verbatim>\<open>msgpack.packb(message, use_bin_type=True)\<close> and
  \<^verbatim>\<open>AMQP.deserialize\<close> is \<^verbatim>\<open>msgpack.unpackb(message, encoding='utf8')\<close>.
\<close>

definition serialize :: "pyval \<Rightarrow> error + byte list" where
  "serialize message = packb True message"

definition deserialize :: "byte list \<Rightarrow> error + pyval" where
  "deserialize message = unpackb True message"

text \<open>\<^verbatim>\<open>str(n)\<close> for an integer: decimal digits, with a minus sign when negative.\<close>

fun digits :: "nat \<Rightarrow> pystr" where
  "digits n = (if n < 10 then [48 + n] else digits (n div 10) @ [48 + n mod 10])"

declare digits.simps [simp del]

definition str_int :: "int \<Rightarrow> pystr" where
  "str_int i = (if i < 0 then 45 # digits (nat (- i)) else digits (nat i))"

text \<open>\<^verbatim>\<open>message[key]\<close> on a decoded value: only a dictionary can be indexed by text.\<close>

definition getitem :: "pyval \<Rightarrow> pystr \<Rightarrow> error + pyval" where
  "getitem v key =
     (case v of
        PDict kvs \<Rightarrow> (case map_of kvs key of None \<Rightarrow> Inl KeyError | Some x \<Rightarrow> Inr x)
      | _ \<Rightarrow> Inl TypeError)"

text \<open>
  Names are text. A decoded group or channel that is not text is outside the names
  modelled and is reported as \<open>TypeError\<close>.
\<close>

definition name_of :: "pyval \<Rightarrow> error + name" where
  "name_of v = (case v of PStr t \<Rightarrow> Inr t | _ \<Rightarrow> Inl TypeError)"

section \<open>The operational channel, the dispatcher and the reply sinks\<close>

text \<open>
  The layer's settings (\<^verbatim>\<open>AMQP.__init__\<close>); all are Python integers.
\<close>

record config =
  expiry :: int
  group_expiry :: int
  capacity :: int

definition dead_letters :: name where
  "dead_letters = text_of ''dead-letters''"

text \<open>
  A reply sink is the calling thread's queue \<^verbatim>\<open>results[get_ident()]\<close> or the
  \<^verbatim>\<open>NullQueue\<close> stub \<^verbatim>\<open>skip_result\<close>. What is put into a sink is a thunk:
  \<^verbatim>\<open>lambda: value\<close> or \<^verbatim>\<open>partial(throw, error)\<close>.
\<close>

datatype sink = ThreadQueue nat | SkipResult

datatype result = RNone | RBool bool | RTuple "name option" pyval

datatype thunk = Return result | Throw error

text \<open>\<^verbatim>\<open>throw\<close> raises its argument; a \<^verbatim>\<open>lambda: value\<close> returns the value.\<close>

definition call_thunk :: "thunk \<Rightarrow> error + result" where
  "call_thunk t = (case t of Return v \<Rightarrow> Inr v | Throw error \<Rightarrow> Inl error)"

text \<open>
  The methods the core calls on the operational channel (and \<^verbatim>\<open>connection.channel\<close>),
  with the keyword arguments it passes. \<open>BasicConsume\<close> also records the consumer tag the
  client library returned.
\<close>

datatype argval = AStr pystr | AInt int

datatype amqp_method =
    QueueDeclare name "(pystr \<times> argval) list" bool
  | ExchangeDeclare name pystr
  | ExchangeBind name name
  | ExchangeUnbind name name
  | QueueBind name name
  | ExchangeDelete name
  | BasicPublish name name "byte list" "pystr option"
  | BasicConsume name nat
  | BasicAck nat
  | BasicCancel nat
  | ConnectionChannel

text \<open>
  The closures of the core, one constructor per \<^verbatim>\<open>lambda\<close>, \<^verbatim>\<open>partial\<close> or nested
  \<^verbatim>\<open>def\<close>, holding the variables the closure captures.
  \<^item> \<open>callback\<close>: given to a channel method, called with the broker's reply frame;
  \<^item> \<open>consumer\<close>: given to \<^verbatim>\<open>basic_consume\<close>, called with each delivery;
  \<^item> \<open>timer\<close>: given to \<^verbatim>\<open>connection.add_timeout\<close>; the dispatcher's
    \<^verbatim>\<open>partial(self.check_method_call, amqp_channel)\<close> holds the channel object it was
    started on, by its number;
  \<^item> \<open>close_callback\<close>: given to \<^verbatim>\<open>add_on_close_callback\<close>;
  \<^item> \<open>work\<close>: a \<^verbatim>\<open>partial\<close> put into \<^verbatim>\<open>method_calls\<close> by the facade.
\<close>

datatype callback =
    PublishMessage name pyval sink
  | PushMarker name name name
  | ThenDeclareMember name name sink
  | ThenDeclareChannel name name sink
  | ThenBindGroup name name sink
  | ThenBindChannel name name sink
  | ThenPutNone sink
  | ChannelExistsCallback sink
  | ThenDeclareDeadQueue
  | ThenBindDeadQueue
  | ThenConsumeDeadLetters

datatype consumer = ReceiveCallback nat nat sink | OnDeadLetter

datatype timer = TimeoutCallback nat sink | CheckMethodCall nat

datatype close_callback = OnChannelClose | OnError sink

datatype work =
    Send name pyval sink
  | Receive "name list" bool sink
  | ChannelExists name sink
  | DeclareChannel name sink
  | GroupAdd name name sink
  | GroupDiscard name name sink
  | SendGroup name pyval

datatype frame = DeclareOk nat | OtherOk

record delivery =
  consumer_tag :: nat
  delivery_tag :: nat
  headers :: "(pystr \<times> (pystr \<times> pystr) list list) list option"
  delivered_body :: "byte list"

text \<open>
  The state the I/O thread and the callers work on.
  \<^item> \<open>channel_id\<close>: the number of the operational channel object; every reopen makes
    a new object, and the objects with smaller numbers are closed for good;
  \<^item> \<open>is_closed\<close>: \<^verbatim>\<open>amqp_channel.is_closed\<close> of the operational channel;
  \<^item> \<open>trace\<close>: the channel methods called so far, in call order;
  \<^item> \<open>awaiting\<close>: the methods called with a callback whose reply is outstanding, oldest
    first, each with its callback;
  \<^item> \<open>consumers\<close>, \<open>timeouts\<close>, \<open>on_close\<close>: the registered consumer callbacks by tag,
    timers by id (with their delay in milliseconds) and close callbacks;
  \<^item> \<open>next_id\<close>: the next fresh consumer tag, timeout id or object identity;
  \<^item> \<open>consumer_tags\<close>: the \<^verbatim>\<open>consumer_tags\<close> dictionaries of the \<^verbatim>\<open>receive\<close> calls, by
    identity, since the closures of one call share and mutate one dictionary;
  \<^item> \<open>method_calls\<close>: the work queue \<^verbatim>\<open>ConnectionThread.calls\<close>;
  \<^item> \<open>results\<close>: the reply sinks by thread identity, each the tokens deposited and not
    yet read, oldest first.
\<close>

record state =
  channel_id :: nat
  is_closed :: bool
  trace :: "amqp_method list"
  awaiting :: "(amqp_method \<times> callback) list"
  consumers :: "(nat \<times> consumer) list"
  timeouts :: "(nat \<times> nat \<times> timer) list"
  on_close :: "close_callback list"
  next_id :: nat
  consumer_tags :: "nat \<Rightarrow> (nat \<times> name) list"
  method_calls :: "work list"
  results :: "nat \<Rightarrow> thunk list"

text \<open>
  What running a piece of code on the I/O thread leaves: the exception that escaped it,
  if any, and the state after the effects it had until then.
\<close>

type_synonym outcome = "error option \<times> state"

definition then_io :: "outcome \<Rightarrow> (state \<Rightarrow> outcome) \<Rightarrow> outcome" where
  "then_io r f = (case r of (None, s) \<Rightarrow> f s | (Some e, s) \<Rightarrow> (Some e, s))"

subsection \<open>Channel and queue primitives\<close>

definition call :: "amqp_method \<Rightarrow> callback option \<Rightarrow> state \<Rightarrow> state" where
  "call m cb s =
     s\<lparr>trace := trace s @ [m],
       awaiting := awaiting s @ (case cb of None \<Rightarrow> [] | Some c \<Rightarrow> [(m, c)])\<rparr>"

definition basic_ack :: "nat \<Rightarrow> state \<Rightarrow> state" where
  "basic_ack tag s = call (BasicAck tag) None s"


definition basic_consume :: "consumer \<Rightarrow> name \<Rightarrow> state \<Rightarrow> nat \<times> state" where
  "basic_consume c queue s =
     (let tag = next_id s
      in (tag, (call (BasicConsume queue tag) None s)
                 \<lparr>consumers := consumers s @ [(tag, c)], next_id := tag + 1\<rparr>))"

definition add_timeout :: "nat \<Rightarrow> timer \<Rightarrow> state \<Rightarrow> nat \<times> state" where
  "add_timeout ms t s =
     (let timeout_id = next_id s
      in (timeout_id, s\<lparr>timeouts := timeouts s @ [(timeout_id, ms, t)],
                         next_id := timeout_id + 1\<rparr>))"


text \<open>
  \<^verbatim>\<open>Queue.put\<close> on a sink. The thread queues have \<^verbatim>\<open>maxsize=1\<close>: a put into an occupied
  queue waits until the caller has taken the earlier token, so the list is the order in
  which the tokens reach the caller. \<^verbatim>\<open>NullQueue.put\<close> does nothing.
\<close>

definition put :: "sink \<Rightarrow> thunk \<Rightarrow> state \<Rightarrow> state" where
  "put q t s =
     (case q of
        SkipResult \<Rightarrow> s
      | ThreadQueue i \<Rightarrow> s\<lparr>results := (results s)(i := results s i @ [t])\<rparr>)"

definition calls_put :: "work \<Rightarrow> state \<Rightarrow> state" where
  "calls_put w s = s\<lparr>method_calls := method_calls s @ [w]\<rparr>"

subsection \<open>The two decorators\<close>

definition retry_if_closed :: "work \<Rightarrow> (state \<Rightarrow> outcome) \<Rightarrow> state \<Rightarrow> outcome" where
  "retry_if_closed again method s =
     (if is_closed s then (None, calls_put again s) else method s)"

definition propagate_error :: "sink \<Rightarrow> (state \<Rightarrow> outcome) \<Rightarrow> state \<Rightarrow> outcome" where
  "propagate_error result method s =
     (case method s of
        (None, s') \<Rightarrow> (None, s')
      | (Some error, s') \<Rightarrow> (None, put result (Throw error) s'))"

section \<open>The core: class \<^verbatim>\<open>AMQP\<close>\<close>

text \<open>
  Each method keeps its name and its parameters; the \<^verbatim>\<open>amqp_channel\<close> parameter is the
  state. The source's variable \<^verbatim>\<open>group\<close> is written \<open>grp\<close>.
\<close>

subsection \<open>send\<close>

definition declare_channel :: "name \<Rightarrow> callback \<Rightarrow> state \<Rightarrow> outcome" where
  "declare_channel channel callback s =
     (None, call (QueueDeclare channel
                    [(text_of ''x-dead-letter-exchange'', AStr dead_letters)] False)
                 (Some callback) s)"

definition send :: "name \<Rightarrow> pyval \<Rightarrow> sink \<Rightarrow> state \<Rightarrow> outcome" where
  "send channel message result =
     retry_if_closed (Send channel message result)
       (declare_channel channel (PublishMessage channel message result))"

text \<open>
  \<^verbatim>\<open>publish_message\<close> as written, before its decorator. Only a \<^verbatim>\<open>Queue.DeclareOk\<close> frame
  has a \<^verbatim>\<open>message_count\<close>.
\<close>

definition publish_message_method ::
  "config \<Rightarrow> name \<Rightarrow> pyval \<Rightarrow> sink \<Rightarrow> frame \<Rightarrow> state \<Rightarrow> outcome" where
  "publish_message_method cfg channel message result method_frame s =
     (case method_frame of
        OtherOk \<Rightarrow> (Some AttributeError, s)
      | DeclareOk message_count \<Rightarrow>
          if int message_count \<ge> capacity cfg then (Some ChannelFull, s)
          else
            (case serialize message of
               Inl e \<Rightarrow> (Some e, s)
             | Inr body \<Rightarrow>
                 (let expiration = str_int (expiry cfg * 1000);
                      s1 = call (BasicPublish [] channel body (Some expiration)) None s
                  in (None, put result (Return RNone) s1))))"

definition publish_message ::
  "config \<Rightarrow> name \<Rightarrow> pyval \<Rightarrow> sink \<Rightarrow> frame \<Rightarrow> state \<Rightarrow> outcome" where
  "publish_message cfg channel message result method_frame =
     propagate_error result (publish_message_method cfg channel message result method_frame)"

subsection \<open>receive\<close>

text \<open>The body of \<^verbatim>\<open>for channel in channels\<close> and the loop.\<close>

definition consume_channel :: "nat \<Rightarrow> consumer \<Rightarrow> name \<Rightarrow> state \<Rightarrow> state" where
  "consume_channel ref callback channel s =
     (let (tag, s1) = basic_consume callback channel s
      in s1\<lparr>consumer_tags := (consumer_tags s1)(ref := dict_set (consumer_tags s1 ref) tag channel)\<rparr>)"

definition receive_method :: "name list \<Rightarrow> bool \<Rightarrow> sink \<Rightarrow> state \<Rightarrow> outcome" where
  "receive_method channels block result s =
     (let ref = next_id s;
          s1 = s\<lparr>consumer_tags := (consumer_tags s)(ref := []), next_id := ref + 1\<rparr>;
          (timeout_id, s2) = add_timeout 100 (TimeoutCallback ref result) s1
      in (None, fold (consume_channel ref (ReceiveCallback ref timeout_id result)) channels s2))"

definition receive :: "name list \<Rightarrow> bool \<Rightarrow> sink \<Rightarrow> state \<Rightarrow> outcome" where
  "receive channels block result =
     retry_if_closed (Receive channels block result)
       (propagate_error result (receive_method channels block result))"



subsection \<open>channel_exists\<close>

definition channel_exists_method :: "name \<Rightarrow> sink \<Rightarrow> state \<Rightarrow> outcome" where
  "channel_exists_method channel result s =
     (let s1 = s\<lparr>on_close := on_close s @ [OnError result]\<rparr>
      in (None, call (QueueDeclare channel [] True) (Some (ChannelExistsCallback result)) s1))"

definition channel_exists :: "name \<Rightarrow> sink \<Rightarrow> state \<Rightarrow> outcome" where
  "channel_exists channel result =
     retry_if_closed (ChannelExists channel result)
       (propagate_error result (channel_exists_method channel result))"

text \<open>The nested \<^verbatim>\<open>callback\<close> and \<^verbatim>\<open>onerror\<close> of \<^verbatim>\<open>channel_exists\<close>.\<close>

definition channel_exists_callback :: "sink \<Rightarrow> state \<Rightarrow> outcome" where
  "channel_exists_callback result s =
     (let s1 = s\<lparr>on_close := remove1 (OnError result) (on_close s)\<rparr>
      in (None, put result (Return (RBool True)) s1))"


subsection \<open>Groups\<close>

definition expire_group_member :: "config \<Rightarrow> name \<Rightarrow> name \<Rightarrow> state \<Rightarrow> state" where
  "expire_group_member cfg grp channel s =
     (let expire_marker = text_of ''expire.bind.'' @ grp @ text_of ''.'' @ channel;
          ttl = group_expiry cfg * 1000
      in call (QueueDeclare expire_marker
                 [(text_of ''x-dead-letter-exchange'', AStr dead_letters),
                  (text_of ''x-message-ttl'', AInt ttl),
                  (text_of ''x-expires'', AInt (ttl + 500)),
                  (text_of ''x-max-length'', AInt 1)] False)
              (Some (PushMarker grp channel expire_marker)) s)"

definition push_marker :: "name \<Rightarrow> name \<Rightarrow> name \<Rightarrow> state \<Rightarrow> outcome" where
  "push_marker grp channel expire_marker s =
     (case serialize (PDict [(text_of ''group'', PStr grp),
                             (text_of ''channel'', PStr channel)]) of
        Inl e \<Rightarrow> (Some e, s)
      | Inr body \<Rightarrow> (None, call (BasicPublish [] expire_marker body None) None s))"

definition group_add_method :: "config \<Rightarrow> name \<Rightarrow> name \<Rightarrow> sink \<Rightarrow> state \<Rightarrow> outcome" where
  "group_add_method cfg grp channel result s =
     (let s1 = expire_group_member cfg grp channel s
      in (None, call (ExchangeDeclare grp (text_of ''fanout''))
                     (Some (ThenDeclareMember grp channel result)) s1))"

definition group_add :: "config \<Rightarrow> name \<Rightarrow> name \<Rightarrow> sink \<Rightarrow> state \<Rightarrow> outcome" where
  "group_add cfg grp channel result =
     retry_if_closed (GroupAdd grp channel result)
       (propagate_error result (group_add_method cfg grp channel result))"

definition group_discard_method :: "name \<Rightarrow> name \<Rightarrow> sink \<Rightarrow> state \<Rightarrow> outcome" where
  "group_discard_method grp channel result s =
     (None, call (ExchangeUnbind channel grp) (Some (ThenPutNone result)) s)"

definition group_discard :: "name \<Rightarrow> name \<Rightarrow> sink \<Rightarrow> state \<Rightarrow> outcome" where
  "group_discard grp channel result =
     retry_if_closed (GroupDiscard grp channel result)
       (propagate_error result (group_discard_method grp channel result))"

definition send_group_method :: "name \<Rightarrow> pyval \<Rightarrow> state \<Rightarrow> outcome" where
  "send_group_method grp message s =
     (case serialize message of
        Inl e \<Rightarrow> (Some e, s)
      | Inr body \<Rightarrow> (None, call (BasicPublish grp [] body None) None s))"

definition send_group :: "name \<Rightarrow> pyval \<Rightarrow> state \<Rightarrow> outcome" where
  "send_group grp message =
     retry_if_closed (SendGroup grp message) (send_group_method grp message)"

subsection \<open>The dead-letter consumer\<close>

definition is_expire_marker :: "name \<Rightarrow> bool" where
  "is_expire_marker queue = prefix (text_of ''expire.bind.'') queue"

definition on_dead_letter :: "delivery \<Rightarrow> state \<Rightarrow> outcome" where
  "on_dead_letter d s =
     (let s1 = basic_ack (delivery_tag d) s
      in case headers d of
           None \<Rightarrow> (Some TypeError, s1)
         | Some h \<Rightarrow>
        (case map_of h (text_of ''x-death'') of
           None \<Rightarrow> (Some KeyError, s1)
         | Some [] \<Rightarrow> (Some IndexError, s1)
         | Some (death # _) \<Rightarrow>
        (case map_of death (text_of ''queue'') of
           None \<Rightarrow> (Some KeyError, s1)
         | Some queue \<Rightarrow>
             if is_expire_marker queue then
               (case deserialize (delivered_body d) of
                  Inl e \<Rightarrow> (Some e, s1)
                | Inr message \<Rightarrow>
               (case getitem message (text_of ''group'') of
                  Inl e \<Rightarrow> (Some e, s1)
                | Inr grp \<Rightarrow>
               (case getitem message (text_of ''channel'') of
                  Inl e \<Rightarrow> (Some e, s1)
                | Inr channel \<Rightarrow>
               (case name_of grp of
                  Inl e \<Rightarrow> (Some e, s1)
                | Inr g \<Rightarrow>
               (case name_of channel of
                  Inl e \<Rightarrow> (Some e, s1)
                | Inr c \<Rightarrow> group_discard g c SkipResult s1)))))
             else (None, call (ExchangeDelete queue) None s1))))"

definition consume_from_dead_letters :: "state \<Rightarrow> outcome" where
  "consume_from_dead_letters s = (None, snd (basic_consume OnDeadLetter dead_letters s))"


subsection \<open>Broker replies, deliveries, timers and the dispatcher\<close>

text \<open>What each callback does when the reply to its method arrives.\<close>

fun run_callback :: "config \<Rightarrow> callback \<Rightarrow> frame \<Rightarrow> state \<Rightarrow> outcome" where
  "run_callback cfg (PublishMessage channel message result) mf s =
     publish_message cfg channel message result mf s"
| "run_callback cfg (PushMarker grp channel expire_marker) mf s =
     push_marker grp channel expire_marker s"
| "run_callback cfg (ThenDeclareMember grp channel result) mf s =
     (None, call (ExchangeDeclare channel (text_of ''fanout''))
                 (Some (ThenDeclareChannel grp channel result)) s)"
| "run_callback cfg (ThenDeclareChannel grp channel result) mf s =
     (None, call (QueueDeclare channel
                    [(text_of ''x-dead-letter-exchange'', AStr dead_letters)] False)
                 (Some (ThenBindGroup grp channel result)) s)"
| "run_callback cfg (ThenBindGroup grp channel result) mf s =
     (None, call (ExchangeBind channel grp) (Some (ThenBindChannel grp channel result)) s)"
| "run_callback cfg (ThenBindChannel grp channel result) mf s =
     (None, call (QueueBind channel channel) (Some (ThenPutNone result)) s)"
| "run_callback cfg (ThenPutNone result) mf s = (None, put result (Return RNone) s)"
| "run_callback cfg (ChannelExistsCallback result) mf s = channel_exists_callback result s"
| "run_callback cfg ThenDeclareDeadQueue mf s =
     (None, call (QueueDeclare dead_letters [] False) (Some ThenBindDeadQueue) s)"
| "run_callback cfg ThenBindDeadQueue mf s =
     (None, call (QueueBind dead_letters dead_letters) (Some ThenConsumeDeadLetters) s)"
| "run_callback cfg ThenConsumeDeadLetters mf s = consume_from_dead_letters s"

text \<open>
  The broker answers the methods of one channel in the order they were sent: a reply
  is for the oldest outstanding method, whose callback is then run.
\<close>

definition reply_arrives :: "config \<Rightarrow> frame \<Rightarrow> state \<Rightarrow> outcome" where
  "reply_arrives cfg mf s =
     (case awaiting s of
        [] \<Rightarrow> (None, s)
      | (m, cb) # rest \<Rightarrow> run_callback cfg cb mf (s\<lparr>awaiting := rest\<rparr>))"


fun run_work :: "config \<Rightarrow> work \<Rightarrow> state \<Rightarrow> outcome" where
  "run_work cfg (Send channel message result) s = send channel message result s"
| "run_work cfg (Receive channels block result) s = receive channels block result s"
| "run_work cfg (ChannelExists channel result) s = channel_exists channel result s"
| "run_work cfg (DeclareChannel channel result) s =
     declare_channel channel (ThenPutNone result) s"
| "run_work cfg (GroupAdd grp channel result) s = group_add cfg grp channel result s"
| "run_work cfg (GroupDiscard grp channel result) s = group_discard grp channel result s"
| "run_work cfg (SendGroup grp message) s = send_group grp message s"

text \<open>
  A work item called with channel object \<open>ch\<close>. On the operational channel it runs as
  above. A channel object that was replaced is closed: \<^verbatim>\<open>retry_if_closed\<close> puts the item
  back into the work queue, and the one undecorated item, \<^verbatim>\<open>declare_channel\<close>, calls
  \<^verbatim>\<open>queue_declare\<close> on the closed channel, which the client library refuses.
\<close>

definition run_work_on :: "config \<Rightarrow> nat \<Rightarrow> work \<Rightarrow> state \<Rightarrow> outcome" where
  "run_work_on cfg ch w s =
     (if ch = channel_id s then run_work cfg w s
      else case w of
             DeclareChannel channel result \<Rightarrow> (Some ChannelClosed, s)
           | _ \<Rightarrow> (None, calls_put w s))"

text \<open>
  \<^verbatim>\<open>check_method_call\<close>: take one work item if there is one and run it, then set the
  timer for the next look 10 ms later. An exception other than \<^verbatim>\<open>queue.Empty\<close> leaves
  through the timer callback into the I/O loop, and the timer is not set again.
\<close>

definition check_method_call :: "config \<Rightarrow> nat \<Rightarrow> state \<Rightarrow> outcome" where
  "check_method_call cfg ch s =
     then_io
       (case method_calls s of
          [] \<Rightarrow> (None, s)
        | method # rest \<Rightarrow> run_work_on cfg ch method (s\<lparr>method_calls := rest\<rparr>))
       (\<lambda>s'. (None, snd (add_timeout 10 (CheckMethodCall ch) s')))"






section \<open>The facade: class \<^verbatim>\<open>RabbitmqChannelLayer\<close>\<close>

text \<open>
  The \<^verbatim>\<open>result\<close> property on thread \<open>ident\<close>: take the oldest token of the thread's sink
  and call it. \<^verbatim>\<open>Queue.get\<close> waits while the sink is empty; \<open>None\<close> is a caller that
  waits on a sink nothing has been put into.
\<close>

definition result_of :: "nat \<Rightarrow> state \<Rightarrow> ((error + result) \<times> state) option" where
  "result_of ident s =
     (case results s ident of
        [] \<Rightarrow> None
      | result_getter # rest \<Rightarrow>
          Some (call_thunk result_getter, s\<lparr>results := (results s)(ident := rest)\<rparr>))"



definition layer_group_add :: "nat \<Rightarrow> name \<Rightarrow> name \<Rightarrow> state \<Rightarrow> state" where
  "layer_group_add ident grp channel s =
     calls_put (GroupAdd grp channel (ThreadQueue ident)) s"

definition layer_send_group :: "name \<Rightarrow> pyval \<Rightarrow> state \<Rightarrow> state" where
  "layer_send_group grp message s = calls_put (SendGroup grp message) s"

section \<open>Whole calls: the caller, the dispatcher and the broker together\<close>



fun replies :: "config \<Rightarrow> frame list \<Rightarrow> state \<Rightarrow> outcome" where
  "replies cfg [] s = (None, s)"
| "replies cfg (mf # mfs) s = then_io (reply_arrives cfg mf s) (replies cfg mfs)"








text \<open>
  \<open>first\<close> has been acknowledged before \<open>second\<close> was called: if \<open>second\<close> is among the
  methods called, then \<open>first\<close> is too and its reply is not outstanding.
\<close>

definition called_after_ack :: "amqp_method \<Rightarrow> amqp_method \<Rightarrow> state \<Rightarrow> bool" where
  "called_after_ack first second s =
     (second \<in> set (trace s) \<longrightarrow> first \<in> set (trace s) \<and> first \<notin> fst ` set (awaiting s))"

subsection \<open>new_channel\<close>
















text \<open>
  The methods one \<^verbatim>\<open>group_add(group, channel)\<close> calls on the channel, in the order it
  calls them; \<open>marker\<close> is the serialized expire marker.
\<close>

definition expire_marker_of :: "name \<Rightarrow> name \<Rightarrow> name" where
  "expire_marker_of grp channel = text_of ''expire.bind.'' @ grp @ text_of ''.'' @ channel"

definition group_add_methods :: "config \<Rightarrow> name \<Rightarrow> name \<Rightarrow> byte list \<Rightarrow> amqp_method list" where
  "group_add_methods cfg grp channel marker =
     [QueueDeclare (expire_marker_of grp channel)
        [(text_of ''x-dead-letter-exchange'', AStr dead_letters),
         (text_of ''x-message-ttl'', AInt (group_expiry cfg * 1000)),
         (text_of ''x-expires'', AInt (group_expiry cfg * 1000 + 500)),
         (text_of ''x-max-length'', AInt 1)] False,
      ExchangeDeclare grp (text_of ''fanout''),
      BasicPublish [] (expire_marker_of grp channel) marker None,
      ExchangeDeclare channel (text_of ''fanout''),
      QueueDeclare channel [(text_of ''x-dead-letter-exchange'', AStr dead_letters)] False,
      ExchangeBind channel grp,
      QueueBind channel channel]"






text \<open>
  The layer's default settings (\<^verbatim>\<open>RabbitmqChannelLayer.__init__\<close>), and an open channel
  on which nothing has been called yet and nothing is outstanding.
\<close>

definition default_config :: config where
  "default_config = \<lparr>expiry = 60, group_expiry = 86400, capacity = 100\<rparr>"

definition idle :: state where
  "idle = \<lparr>channel_id = 0, is_closed = False, trace = [], awaiting = [], consumers = [], timeouts = [],
            on_close = [OnChannelClose], next_id = 0, consumer_tags = (\<lambda>r. []),
            method_calls = [], results = (\<lambda>i. [])\<rparr>"




text \<open>
  Two dead letters as the broker delivers them. The first comes from the marker queue of
  group \<^verbatim>\<open>g\<close> and channel \<^verbatim>\<open>c\<close>, with the given \<^verbatim>\<open>x-death\<close> reason; its body is the
  marker \<^verbatim>\<open>{'group': 'g', 'channel': 'c'}\<close> as \<^verbatim>\<open>push_marker\<close> serializes it. The second
  is a message that expired in the queue of channel \<^verbatim>\<open>c1\<close>.
\<close>

definition marker_delivery :: "pystr \<Rightarrow> delivery" where
  "marker_delivery reason =
     \<lparr>consumer_tag = 0, delivery_tag = 7,
      headers = Some [(text_of ''x-death'',
                       [[(text_of ''queue'', text_of ''expire.bind.g.c''),
                         (text_of ''reason'', reason)]])],
      delivered_body = [0x82, 0xa5, 103, 114, 111, 117, 112, 0xa1, 103,
                        0xa7, 99, 104, 97, 110, 110, 101, 108, 0xa1, 99]\<rparr>"

definition channel_delivery :: delivery where
  "channel_delivery =
     \<lparr>consumer_tag = 0, delivery_tag = 8,
      headers = Some [(text_of ''x-death'',
                       [[(text_of ''queue'', text_of ''c1''),
                         (text_of ''reason'', text_of ''expired'')]])],
      delivered_body = [0xc0]\<rparr>"

section \<open>Capacity and error propagation\<close>

text \<open>
  Claim C9. A send whose declare reply reports \<open>message_count \<ge> capacity\<close> is atomic:
  \<^verbatim>\<open>publish_message\<close> raises \<open>ChannelFull\<close> with the state untouched, whatever the
  message is (so before \<^verbatim>\<open>serialize\<close> could fail and before any \<^verbatim>\<open>basic_publish\<close>); the
  decorated method hands \<open>ChannelFull\<close> to the reply sink; and over the whole call the
  only method called on the channel is the queue declare.
\<close>

theorem send_full_is_atomic:
  assumes "capacity cfg \<le> int message_count" and "\<not> is_closed s" and "awaiting s = []"
  shows "publish_message_method cfg channel message result (DeclareOk message_count) s
           = (Some ChannelFull, s)
       \<and> publish_message cfg channel message result (DeclareOk message_count) s
           = (None, put result (Throw ChannelFull) s)
       \<and> then_io (send channel message result s) (reply_arrives cfg (DeclareOk message_count))
           = (None, put result (Throw ChannelFull)
                (s\<lparr>trace := trace s @
                     [QueueDeclare channel
                        [(text_of ''x-dead-letter-exchange'', AStr dead_letters)] False]\<rparr>))"
proof -
  have m: "publish_message_method cfg channel message result (DeclareOk message_count) s'
             = (Some ChannelFull, s')" for s'
    using assms(1) by (simp add: publish_message_method_def)
  have p: "publish_message cfg channel message result (DeclareOk message_count) s'
             = (None, put result (Throw ChannelFull) s')" for s'
    by (simp add: publish_message_def propagate_error_def m)
  have "then_io (send channel message result s) (reply_arrives cfg (DeclareOk message_count))
          = (None, put result (Throw ChannelFull)
                (s\<lparr>trace := trace s @
                     [QueueDeclare channel
                        [(text_of ''x-dead-letter-exchange'', AStr dead_letters)] False]\<rparr>))"
    using assms(2,3)
    by (cases s) (simp add: send_def retry_if_closed_def declare_channel_def call_def
        then_io_def reply_arrives_def p)
  with m p show ?thesis by simp
qed

text \<open>
  At the default capacity of 100, with 100 messages queued, a message that could not
  even be serialized (a lone surrogate) is refused with \<open>ChannelFull\<close>.
\<close>

theorem send_full_is_atomic_witness:
  "capacity default_config \<le> int 100 \<and> \<not> is_closed idle \<and> awaiting idle = []
   \<and> publish_message default_config (text_of ''c'') (PStr [0xD800]) (ThreadQueue 0)
        (DeclareOk 100) idle
      = (None, put (ThreadQueue 0) (Throw ChannelFull) idle)"
  using send_full_is_atomic
          [of default_config 100 idle "text_of ''c''" "PStr [0xD800]" "ThreadQueue 0"]
  by (simp add: default_config_def idle_def)

text \<open>
  Claim C8. When the method wrapped by \<^verbatim>\<open>propagate_error\<close> raises \<open>error\<close>, the wrapper
  returns normally (nothing escapes into the I/O loop) after putting
  \<^verbatim>\<open>partial(throw, error)\<close> into the item's reply sink; and the caller whose sink was
  empty, reading \<^verbatim>\<open>self.result\<close>, has the same \<open>error\<close> raised.
\<close>

theorem propagate_error_captures:
  assumes "method s = (Some error, s')" and "results s' ident = []"
  shows "propagate_error result method s = (None, put result (Throw error) s')
       \<and> results (snd (propagate_error (ThreadQueue ident) method s)) ident = [Throw error]
       \<and> map_option fst (result_of ident (snd (propagate_error (ThreadQueue ident) method s)))
           = Some (Inl error)"
  using assms by (simp add: propagate_error_def result_of_def put_def call_thunk_def)

theorem propagate_error_captures_witness:
  "publish_message_method default_config (text_of ''c'') PNone (ThreadQueue 0)
       (DeclareOk 100) idle = (Some ChannelFull, idle)
   \<and> results idle 0 = []
   \<and> map_option fst (result_of 0 (snd (propagate_error (ThreadQueue 0)
        (publish_message_method default_config (text_of ''c'') PNone (ThreadQueue 0)
           (DeclareOk 100)) idle)))
      = Some (Inl ChannelFull)"
proof -
  have h: "publish_message_method default_config (text_of ''c'') PNone (ThreadQueue 0)
             (DeclareOk 100) idle = (Some ChannelFull, idle)"
    by (simp add: publish_message_method_def default_config_def)
  have e: "results idle 0 = []"
    by (simp add: idle_def)
  show ?thesis
    using propagate_error_captures
            [of "publish_message_method default_config (text_of ''c'') PNone
                   (ThreadQueue 0) (DeclareOk 100)"
                idle ChannelFull idle 0 "ThreadQueue 0"]
          h e
    by blast
qed

section \<open>Fire-and-forget group sends\<close>

text \<open>
  Claim C10. \<^verbatim>\<open>send_group\<close> never touches a reply sink. The facade only appends the work
  item (which carries no sink) to the work queue and reads nothing; running the item
  leaves every sink as it was, also when it goes through the dispatcher; the item is put
  back into the work queue exactly when the channel is closed; and on an open channel an
  error of \<^verbatim>\<open>serialize\<close> leaves the method as an exception, with no token for anyone.
\<close>

theorem send_group_touches_no_sink:
  "layer_send_group grp message s = s\<lparr>method_calls := method_calls s @ [SendGroup grp message]\<rparr>
   \<and> results (layer_send_group grp message s) = results s
   \<and> results (snd (run_work cfg (SendGroup grp message) s')) = results s'
   \<and> results (snd (check_method_call cfg ch
                       (s'\<lparr>method_calls := SendGroup grp message # rest\<rparr>)))
       = results s'
   \<and> run_work cfg (SendGroup grp message) s'
       = (if is_closed s' then (None, s'\<lparr>method_calls := method_calls s' @ [SendGroup grp message]\<rparr>)
          else case serialize message of
                 Inl e \<Rightarrow> (Some e, s')
               | Inr b \<Rightarrow> (None, s'\<lparr>trace := trace s' @ [BasicPublish grp [] b None]\<rparr>))"
  by (cases s') (simp add: layer_send_group_def calls_put_def send_group_def retry_if_closed_def
      send_group_method_def call_def check_method_call_def run_work_on_def then_io_def
      add_timeout_def split: sum.splits)

section \<open>The dead-letter consumer\<close>

lemma marker_body_decodes:
  "deserialize [0x82, 0xa5, 103, 114, 111, 117, 112, 0xa1, 103,
                0xa7, 99, 104, 97, 110, 110, 101, 108, 0xa1, 99]
     = Inr (PDict [(text_of ''group'', PStr (text_of ''g'')),
                   (text_of ''channel'', PStr (text_of ''c''))])"
  by code_simp

text \<open>
  Claim C5. For a delivery whose \<^verbatim>\<open>x-death\<close> header has a first entry with a \<^verbatim>\<open>queue\<close>
  field: the delivery is acknowledged first; if the origin queue is not an expire marker,
  the exchange named after it is deleted; if it is, and the body decodes to a message
  with text \<^verbatim>\<open>group\<close> and \<^verbatim>\<open>channel\<close>, the consumer calls
  \<^verbatim>\<open>group_discard(group, channel, result=skip_result)\<close>, which unbinds the channel's
  exchange from the group's (or, on a closed channel, queues the discard for later).
  \<^verbatim>\<open>skip_result\<close> drops whatever is put into it, the success token included.
\<close>

theorem on_dead_letter_dispatch:
  assumes "headers d = Some h"
    and "map_of h (text_of ''x-death'') = Some (death # deaths)"
    and "map_of death (text_of ''queue'') = Some queue"
  shows "trace (basic_ack (delivery_tag d) s) = trace s @ [BasicAck (delivery_tag d)]
   \<and> (\<not> is_expire_marker queue \<longrightarrow>
        on_dead_letter d s
          = (None, call (ExchangeDelete queue) None (basic_ack (delivery_tag d) s)))
   \<and> (is_expire_marker queue \<and> deserialize (delivered_body d) = Inr message
        \<and> getitem message (text_of ''group'') = Inr (PStr g)
        \<and> getitem message (text_of ''channel'') = Inr (PStr c) \<longrightarrow>
        on_dead_letter d s = group_discard g c SkipResult (basic_ack (delivery_tag d) s)
        \<and> on_dead_letter d s
            = (if is_closed s
               then (None, calls_put (GroupDiscard g c SkipResult) (basic_ack (delivery_tag d) s))
               else (None, call (ExchangeUnbind c g) (Some (ThenPutNone SkipResult))
                             (basic_ack (delivery_tag d) s))))
   \<and> put SkipResult t s' = s'
   \<and> run_callback cfg (ThenPutNone SkipResult) mf s' = (None, s')"
  using assms
  by (simp add: on_dead_letter_def basic_ack_def call_def name_of_def group_discard_def
      retry_if_closed_def propagate_error_def group_discard_method_def put_def)

text \<open>Both kinds of dead letter, on the idle channel.\<close>

theorem on_dead_letter_dispatch_witness:
  "on_dead_letter (marker_delivery (text_of ''expired'')) idle
     = (None, call (ExchangeUnbind (text_of ''c'') (text_of ''g''))
                (Some (ThenPutNone SkipResult)) (basic_ack 7 idle))
   \<and> on_dead_letter channel_delivery idle
     = (None, call (ExchangeDelete (text_of ''c1'')) None (basic_ack 8 idle))"
proof -
  let ?D = "[(text_of ''queue'', text_of ''expire.bind.g.c''),
             (text_of ''reason'', text_of ''expired'')]"
  let ?M = "PDict [(text_of ''group'', PStr (text_of ''g'')),
                   (text_of ''channel'', PStr (text_of ''c''))]"
  have o: "\<not> is_closed idle"
    by (simp add: idle_def)
  have h1: "headers (marker_delivery (text_of ''expired'')) = Some [(text_of ''x-death'', [?D])]"
    by (simp add: marker_delivery_def)
  have h2: "map_of [(text_of ''x-death'', [?D])] (text_of ''x-death'') = Some (?D # [])"
    by simp
  have h3: "map_of ?D (text_of ''queue'') = Some (text_of ''expire.bind.g.c'')"
    by simp
  have m: "is_expire_marker (text_of ''expire.bind.g.c'')"
    by (simp add: is_expire_marker_def text_of_def)
  have b: "deserialize (delivered_body (marker_delivery (text_of ''expired''))) = Inr ?M"
    by (simp add: marker_delivery_def marker_body_decodes)
  have g1: "getitem ?M (text_of ''group'') = Inr (PStr (text_of ''g''))"
    by (simp add: getitem_def)
  have g2: "getitem ?M (text_of ''channel'') = Inr (PStr (text_of ''c''))"
    by (simp add: getitem_def text_of_def)
  have dt: "delivery_tag (marker_delivery (text_of ''expired'')) = 7"
    by (simp add: marker_delivery_def)
  have a: "on_dead_letter (marker_delivery (text_of ''expired'')) idle
     = (None, call (ExchangeUnbind (text_of ''c'') (text_of ''g''))
                (Some (ThenPutNone SkipResult)) (basic_ack 7 idle))"
    using on_dead_letter_dispatch
            [OF h1 h2 h3, of idle ?M "text_of ''g''" "text_of ''c''" "Return RNone" idle
               default_config OtherOk]
          m b g1 g2 o dt
    by auto
  let ?E = "[(text_of ''queue'', text_of ''c1''), (text_of ''reason'', text_of ''expired'')]"
  have k1: "headers channel_delivery = Some [(text_of ''x-death'', [?E])]"
    by (simp add: channel_delivery_def)
  have k2: "map_of [(text_of ''x-death'', [?E])] (text_of ''x-death'') = Some (?E # [])"
    by simp
  have k3: "map_of ?E (text_of ''queue'') = Some (text_of ''c1'')"
    by simp
  have n: "\<not> is_expire_marker (text_of ''c1'')"
    by (simp add: is_expire_marker_def text_of_def)
  have kt: "delivery_tag channel_delivery = 8"
    by (simp add: channel_delivery_def)
  have c: "on_dead_letter channel_delivery idle
     = (None, call (ExchangeDelete (text_of ''c1'')) None (basic_ack 8 idle))"
    using on_dead_letter_dispatch
            [OF k1 k2 k3, of idle PNone "[]" "[]" "Return RNone" idle default_config OtherOk]
          n kt
    by auto
  from a c show ?thesis by simp
qed

text \<open>
  Claim C4 asks that a marker dead-lettered by the marker queue's own \<^verbatim>\<open>x-max-length\<close>
  (reason \<^verbatim>\<open>maxlen\<close>) cause no discard. \<^verbatim>\<open>on_dead_letter\<close> reads only the \<^verbatim>\<open>queue\<close> field
  of the \<^verbatim>\<open>x-death\<close> entry, never its \<^verbatim>\<open>reason\<close>: on the idle channel such a delivery is
  acknowledged and then answered with the unbind of channel \<^verbatim>\<open>c\<close> from group \<^verbatim>\<open>g\<close>.
\<close>

theorem maxlen_dead_letter_discards:
  "on_dead_letter (marker_delivery (text_of ''maxlen'')) idle
     = (None, idle\<lparr>trace := [BasicAck 7, ExchangeUnbind (text_of ''c'') (text_of ''g'')],
                    awaiting := [(ExchangeUnbind (text_of ''c'') (text_of ''g''),
                                  ThenPutNone SkipResult)]\<rparr>)"
  by (simp add: on_dead_letter_def marker_delivery_def marker_body_decodes basic_ack_def
      call_def idle_def is_expire_marker_def text_of_def getitem_def name_of_def
      group_discard_def retry_if_closed_def propagate_error_def group_discard_method_def)

section \<open>send and the channel's capacity\<close>









section \<open>group_add\<close>

lemma marker_serializes:
  "serialize (PDict [(text_of ''group'', PStr (text_of ''g'')),
                     (text_of ''channel'', PStr (text_of ''c''))])
     = Inr [0x82, 0xa5, 103, 114, 111, 117, 112, 0xa1, 103,
            0xa7, 99, 104, 97, 110, 110, 101, 108, 0xa1, 99]"
  by code_simp

text \<open>
  Claim C3 as the code has it. On an open channel with nothing outstanding, and with a
  marker that serializes:
  \<^item> the synchronous step of \<^verbatim>\<open>group_add\<close> calls two methods at once, the declare of the
    marker queue and the declare of the group's exchange, and leaves both unanswered;
  \<^item> the first reply (to the marker declare) publishes the marker;
  \<^item> each later reply lets exactly the next method be called: the declare of the
    channel's exchange, the declare of the channel's queue, the bind of the channel's
    exchange to the group's, the bind of the queue to the channel's exchange;
  \<^item> the sixth reply (to the last bind) puts \<^verbatim>\<open>lambda: None\<close> into the sink, and no token
    is put before it.
\<close>

theorem group_add_chain:
  assumes "\<not> is_closed s" and "awaiting s = []"
    and "serialize (PDict [(text_of ''group'', PStr grp), (text_of ''channel'', PStr channel)])
           = Inr marker"
  shows "group_add cfg grp channel result s
           = (None, s\<lparr>trace := trace s @ take 2 (group_add_methods cfg grp channel marker),
                       awaiting := [(group_add_methods cfg grp channel marker ! 0,
                                     PushMarker grp channel (expire_marker_of grp channel)),
                                    (group_add_methods cfg grp channel marker ! 1,
                                     ThenDeclareMember grp channel result)]\<rparr>)
   \<and> then_io (group_add cfg grp channel result s) (replies cfg [f1])
           = (None, s\<lparr>trace := trace s @ take 3 (group_add_methods cfg grp channel marker),
                       awaiting := [(group_add_methods cfg grp channel marker ! 1,
                                     ThenDeclareMember grp channel result)]\<rparr>)
   \<and> then_io (group_add cfg grp channel result s) (replies cfg [f1, f2])
           = (None, s\<lparr>trace := trace s @ take 4 (group_add_methods cfg grp channel marker),
                       awaiting := [(group_add_methods cfg grp channel marker ! 3,
                                     ThenDeclareChannel grp channel result)]\<rparr>)
   \<and> then_io (group_add cfg grp channel result s) (replies cfg [f1, f2, f3])
           = (None, s\<lparr>trace := trace s @ take 5 (group_add_methods cfg grp channel marker),
                       awaiting := [(group_add_methods cfg grp channel marker ! 4,
                                     ThenBindGroup grp channel result)]\<rparr>)
   \<and> then_io (group_add cfg grp channel result s) (replies cfg [f1, f2, f3, f4])
           = (None, s\<lparr>trace := trace s @ take 6 (group_add_methods cfg grp channel marker),
                       awaiting := [(group_add_methods cfg grp channel marker ! 5,
                                     ThenBindChannel grp channel result)]\<rparr>)
   \<and> then_io (group_add cfg grp channel result s) (replies cfg [f1, f2, f3, f4, f5])
           = (None, s\<lparr>trace := trace s @ group_add_methods cfg grp channel marker,
                       awaiting := [(group_add_methods cfg grp channel marker ! 6,
                                     ThenPutNone result)]\<rparr>)
   \<and> then_io (group_add cfg grp channel result s) (replies cfg [f1, f2, f3, f4, f5, f6])
           = (None, put result (Return RNone)
                      (s\<lparr>trace := trace s @ group_add_methods cfg grp channel marker\<rparr>))"
  using assms
  by (cases s)
     (simp add: group_add_def retry_if_closed_def propagate_error_def group_add_method_def
       expire_group_member_def call_def then_io_def reply_arrives_def push_marker_def
       group_add_methods_def expire_marker_of_def Let_def)

theorem group_add_chain_witness:
  "\<not> is_closed idle \<and> awaiting idle = []
   \<and> then_io (group_add default_config (text_of ''g'') (text_of ''c'') (ThreadQueue 0) idle)
        (replies default_config [DeclareOk 0, OtherOk, OtherOk, DeclareOk 0, OtherOk, OtherOk])
      = (None, put (ThreadQueue 0) (Return RNone)
                 (idle\<lparr>trace := trace idle @
                    group_add_methods default_config (text_of ''g'') (text_of ''c'')
                      [0x82, 0xa5, 103, 114, 111, 117, 112, 0xa1, 103,
                       0xa7, 99, 104, 97, 110, 110, 101, 108, 0xa1, 99]\<rparr>))"
proof -
  have o: "\<not> is_closed idle" and a: "awaiting idle = []"
    by (simp_all add: idle_def)
  from group_add_chain
         [of idle "text_of ''g''" "text_of ''c''"
             "[0x82, 0xa5, 103, 114, 111, 117, 112, 0xa1, 103,
               0xa7, 99, 104, 97, 110, 110, 101, 108, 0xa1, 99]"
             default_config "ThreadQueue 0" "DeclareOk 0" OtherOk OtherOk "DeclareOk 0"
             OtherOk OtherOk,
          OF o a marker_serializes]
       o a
  show ?thesis by blast
qed

text \<open>
  Claim C3 as stated has every step called only after the step before it was
  acknowledged. After the synchronous step of \<^verbatim>\<open>group_add('g', 'c')\<close> on the idle channel,
  before any reply, the group's exchange declare has been called while the marker
  queue's declare is still unanswered.
\<close>

theorem group_declared_before_marker_ack:
  "\<not> called_after_ack
       (QueueDeclare (text_of ''expire.bind.g.c'')
          [(text_of ''x-dead-letter-exchange'', AStr dead_letters),
           (text_of ''x-message-ttl'', AInt 86400000),
           (text_of ''x-expires'', AInt 86400500),
           (text_of ''x-max-length'', AInt 1)] False)
       (ExchangeDeclare (text_of ''g'') (text_of ''fanout''))
       (snd (group_add default_config (text_of ''g'') (text_of ''c'') (ThreadQueue 0) idle))"
  by (simp add: called_after_ack_def group_add_def retry_if_closed_def propagate_error_def
      group_add_method_def expire_group_member_def call_def idle_def default_config_def
      Let_def text_of_def)

section \<open>receive\<close>



























section \<open>new_channel\<close>





















end
